theory Spec2Isabelle
  imports Complex_Main "HOL-Library.AList" "HOL-Library.Char_ord" "HOL-Library.List_Lexorder"
begin

section \<open>The obstacle-avoidance constraint of constrained\_ik\<close>

text \<open>
  A shallow embedding of \<^verbatim>\<open>constrained_ik/src/constraints/avoid_obstacles.cpp\<close>.

  Conventions of the embedding:
  \<^item> a C++ \<^verbatim>\<open>double\<close> is a \<^typ>\<open>real\<close>: the arithmetic is exact, so rounding, overflow
    to infinity and NaN are not represented;
  \<^item> an Eigen vector is a list of coefficients, an Eigen matrix the list of its rows;
  \<^item> storage that the C++ leaves uninitialised (the coefficient of a vector after
    \<^verbatim>\<open>resize\<close>, the two joint counts of a freshly constructed \<^verbatim>\<open>LinkAvoidance\<close>) holds
    whatever was in memory; that content is an explicit argument of the function that
    allocates it;
  \<^item> a \<^verbatim>\<open>std::map\<close> keyed by link name is an association list in ascending key order,
    the order in which its iterators walk it;
  \<^item> reads out of range, a null solver and an Eigen block that does not fit are values of
    the type \<open>failure\<close>;
  \<^item> a member \<^verbatim>\<open>name_\<close> of a C++ class is the field \<open>name\<close> of the record, and a
    \<^verbatim>\<open>ROS_WARN\<close> or \<^verbatim>\<open>ROS_ERROR\<close> is a message in the list the function returns
    (\<^verbatim>\<open>ROS_DEBUG\<close> is left out).
\<close>

subsection \<open>Constants\<close>

definition DEFAULT_WEIGHT :: real where "DEFAULT_WEIGHT = 1.0"
definition DEFAULT_MIN_DISTANCE :: real where "DEFAULT_MIN_DISTANCE = 0.1"
definition DEFAULT_AVOIDANCE_DISTANCE :: real where "DEFAULT_AVOIDANCE_DISTANCE = 0.3"
definition DEFAULT_AMPLITUDE :: real where "DEFAULT_AMPLITUDE = 0.3"
definition DEFAULT_SHIFT :: real where "DEFAULT_SHIFT = 5.0"
definition DEFAULT_ZERO_POINT :: real where "DEFAULT_ZERO_POINT = 10"

subsection \<open>Data model\<close>

type_synonym vec3 = "real \<times> real \<times> real"

text \<open>A KDL twist: the linear velocity \<open>vel\<close> and the angular velocity \<open>rot\<close>.\<close>

record Twist =
  vel :: vec3
  rot :: vec3

text \<open>
  \<^verbatim>\<open>KDL::ChainJntToJacSolver\<close> is an external library. \<^verbatim>\<open>JntToJac(q, jac)\<close> fills the
  columns of a Jacobian that the caller has already sized; the solver is therefore the
  function that gives, for the joint array \<open>q\<close>, the twist of column \<open>i\<close>.
\<close>

type_synonym ChainJntToJacSolver = "real list \<Rightarrow> nat \<Rightarrow> Twist"

text \<open>
  \<^verbatim>\<open>KDL::Chain\<close>, as far as this file uses it: its number of joints and the Jacobian
  solver constructed from it.
\<close>

record Chain =
  getNrOfJoints :: nat
  JntToJac :: ChainJntToJacSolver

record LinkAvoidance =
  weight :: real
  min_distance :: real
  avoidance_distance :: real
  amplitude :: real
  num_robot_joints :: nat
  num_inboard_joints :: nat
  jac_solver :: "ChainJntToJacSolver option"
  link_name :: string

text \<open>
  The entry of \<^verbatim>\<open>DistanceInfoMap\<close> for one link, already in the frame of the chain's base.
\<close>

record DistanceInfo =
  distance :: real
  link_point :: vec3
  avoidance_vector :: vec3

text \<open>
  \<^verbatim>\<open>SolverState\<close>, as far as this file reads it: the joint values, and the outcome of
  the one self-distance query (\<^verbatim>\<open>distanceSelfDetailed\<close> followed by \<^verbatim>\<open>getDistanceInfo\<close>,
  both external) as a function of the set of links the query is restricted to.
\<close>

record SolverState =
  joints :: "real list"
  distanceSelfDetailed :: "string set \<Rightarrow> (string \<rightharpoonup> DistanceInfo)"

record AvoidObstaclesData =
  state :: SolverState
  distance_info_map :: "string \<rightharpoonup> DistanceInfo"

datatype failure =
    IndexOutOfRange      \<comment> \<open>\<^verbatim>\<open>joints(i)\<close> with \<open>i\<close> beyond the size of the vector\<close>
  | NullSolver           \<comment> \<open>\<^verbatim>\<open>jac_solver_\<close> dereferenced while it is \<^verbatim>\<open>NULL\<close>\<close>
  | BlockOutOfRange      \<comment> \<open>\<^verbatim>\<open>block(0, 0, 1, n)\<close> wider than the matrix\<close>
  | UnregisteredLink string

subsection \<open>The constructor of LinkAvoidance\<close>

text \<open>
  The initialiser list sets the four parameters, the solver and the name. It does not
  mention \<^verbatim>\<open>num_robot_joints_\<close> and \<^verbatim>\<open>num_inboard_joints_\<close>: they keep the content of the
  memory the object is built in, here the pair \<open>junk\<close>.
\<close>

definition LinkAvoidance_new :: "nat \<times> nat \<Rightarrow> string \<Rightarrow> LinkAvoidance" where
  "LinkAvoidance_new junk name =
     \<lparr> weight = DEFAULT_WEIGHT,
       min_distance = DEFAULT_MIN_DISTANCE,
       avoidance_distance = DEFAULT_AVOIDANCE_DISTANCE,
       amplitude = DEFAULT_AMPLITUDE,
       num_robot_joints = fst junk,
       num_inboard_joints = snd junk,
       jac_solver = None,
       link_name = name \<rparr>"

subsection \<open>calcError\<close>

text \<open>
  \<^verbatim>\<open>dist_err.resize(1,1)\<close> allocates one coefficient and does not initialise it: \<open>uninit\<close>
  is what that coefficient holds. The branch for a link with a proximity entry overwrites
  it; the other branch only logs.
\<close>

definition calcError :: "real \<Rightarrow> AvoidObstaclesData \<Rightarrow> LinkAvoidance \<Rightarrow> real list" where
  "calcError uninit cdata link =
     (let dist_err = [uninit] in
      case distance_info_map cdata (link_name link) of
        Some it \<Rightarrow>
          (let dist = distance it;
               scale_x = avoidance_distance link / (DEFAULT_ZERO_POINT + DEFAULT_SHIFT);
               scale_y = amplitude link
           in dist_err[0 := scale_y / (1.0 + exp ((dist / scale_x) - DEFAULT_SHIFT))])
      | None \<Rightarrow> dist_err)"

subsection \<open>checkStatus\<close>

definition checkStatus :: "AvoidObstaclesData \<Rightarrow> LinkAvoidance \<Rightarrow> bool" where
  "checkStatus cdata link =
     (case distance_info_map cdata (link_name link) of
        Some it \<Rightarrow> (if distance it < min_distance link then False else True)
      | None \<Rightarrow> True)"

subsection \<open>calcJacobian\<close>

text \<open>
  KDL's vector product \<^verbatim>\<open>Vector * Vector\<close> and Eigen's dot product, on triples.
\<close>

fun cross :: "vec3 \<Rightarrow> vec3 \<Rightarrow> vec3" where
  "cross (ax, ay, az) (bx, by, bz) = (ay * bz - az * by, az * bx - ax * bz, ax * by - ay * bx)"

fun vadd :: "vec3 \<Rightarrow> vec3 \<Rightarrow> vec3" where
  "vadd (ax, ay, az) (bx, by, bz) = (ax + bx, ay + by, az + bz)"

fun vx :: "vec3 \<Rightarrow> real" where "vx (x, y, z) = x"
fun vy :: "vec3 \<Rightarrow> real" where "vy (x, y, z) = y"
fun vz :: "vec3 \<Rightarrow> real" where "vz (x, y, z) = z"

text \<open>
  \<^verbatim>\<open>KDL::Jacobian::changeRefPoint\<close> (external library; the spec describes it in 4.4,
  step 2): every column keeps its angular part, and its linear part is shifted by the
  vector product of the angular part and the offset.
\<close>

definition RefPoint :: "Twist \<Rightarrow> vec3 \<Rightarrow> Twist" where
  "RefPoint t v_base_AB = \<lparr> vel = vadd (vel t) (cross (rot t) v_base_AB), rot = rot t \<rparr>"

definition changeRefPoint :: "Twist list \<Rightarrow> vec3 \<Rightarrow> Twist list" where
  "changeRefPoint jac base_AB = map (\<lambda>t. RefPoint t base_AB) jac"

text \<open>
  Modelled from the spec: \<^verbatim>\<open>basic_kin::BasicKin::KDLToEigen\<close> is not in the source file;
  by 4.4 (steps 1 to 3) the Eigen matrix is the 6 x n Jacobian itself, whose top three rows
  are the linear-velocity block.
\<close>

definition KDLToEigen :: "Twist list \<Rightarrow> real list list" where
  "KDLToEigen jac =
     [map (\<lambda>t. vx (vel t)) jac, map (\<lambda>t. vy (vel t)) jac, map (\<lambda>t. vz (vel t)) jac,
      map (\<lambda>t. vx (rot t)) jac, map (\<lambda>t. vy (rot t)) jac, map (\<lambda>t. vz (rot t)) jac]"

definition cols :: "real list list \<Rightarrow> nat" where
  "cols m = (case m of [] \<Rightarrow> 0 | r # _ \<Rightarrow> length r)"

definition topRows :: "nat \<Rightarrow> real list list \<Rightarrow> real list list" where
  "topRows n m = take n m"

text \<open>The product of the transposed 3-vector \<open>a\<close> with a matrix of three rows.\<close>

definition transpose_times :: "vec3 \<Rightarrow> real list list \<Rightarrow> real list" where
  "transpose_times a m =
     map (\<lambda>j. vx a * (m ! 0) ! j + vy a * (m ! 1) ! j + vz a * (m ! 2) ! j) [0..<cols m]"

text \<open>
  \<^verbatim>\<open>jacobian.block(0, 0, 1, n) = row\<close> on a matrix of one row: the first \<open>n\<close> coefficients
  are overwritten, the others kept. Eigen asserts that the block lies inside the matrix.
\<close>

definition block_assign :: "real list list \<Rightarrow> nat \<Rightarrow> real list \<Rightarrow> failure + real list list" where
  "block_assign jacobian n row =
     (if cols jacobian < n then Inl BlockOutOfRange
      else Inr [row @ drop n (jacobian ! 0)])"

text \<open>
  The source first allocates \<^verbatim>\<open>link_jacobian\<close> with \<^verbatim>\<open>num_inboard_joints_\<close> columns, before
  it looks the link up. Memory is not bounded here, so that allocation does nothing until
  the solver fills the columns; for a link that \<open>init\<close> has not bound, the number of columns
  is whatever the constructor left in \<^verbatim>\<open>num_inboard_joints_\<close>.
\<close>

definition calcJacobian :: "AvoidObstaclesData \<Rightarrow> LinkAvoidance \<Rightarrow> failure + real list list" where
  "calcJacobian cdata link =
     (let jacobian = [replicate (num_robot_joints link) 0] in
      case distance_info_map cdata (link_name link) of
        Some it \<Rightarrow>
          if length (joints (state cdata)) < num_inboard_joints link then Inl IndexOutOfRange
          else
            (let joint_array = take (num_inboard_joints link) (joints (state cdata)) in
             case jac_solver link of
               None \<Rightarrow> Inl NullSolver
             | Some solver \<Rightarrow>
                 (let link_jacobian = map (solver joint_array) [0..<num_inboard_joints link];
                      link_jacobian = changeRefPoint link_jacobian (link_point it);
                      j_tmp = KDLToEigen link_jacobian
                  in block_assign jacobian (cols j_tmp)
                       (transpose_times (avoidance_vector it) (topRows 3 j_tmp))))
      | None \<Rightarrow> Inr jacobian)"

subsection \<open>ConstraintResults\<close>

record ConstraintResults =
  error :: "real list"
  jacobian :: "real list list"
  status :: bool

text \<open>
  Modelled from the spec: \<^verbatim>\<open>ConstraintResults\<close> and its \<^verbatim>\<open>append\<close> are declared in a
  header that is not in the source file. By 3 and 4.6 of the spec a contribution holds one
  error scalar and one Jacobian row per link and the conjunction of the statuses; appending
  stacks the errors into one vector and the rows into one matrix and conjoins the statuses.
\<close>

text \<open>
  The spec says no more about rows of different lengths than that their stack is
  ill-formed. \<open>append_results\<close> keeps the rows as they are given: a result whose rows differ
  in length stands for such an ill-formed stack, not for a matrix. Links bound by one \<open>init\<close>
  have the same \<^verbatim>\<open>num_robot_joints_\<close>, so their rows are of one length.
\<close>

definition ConstraintResults_new :: ConstraintResults where
  "ConstraintResults_new = \<lparr> error = [], jacobian = [], status = True \<rparr>"

definition append_results :: "ConstraintResults \<Rightarrow> ConstraintResults \<Rightarrow> ConstraintResults" where
  "append_results output tmp =
     \<lparr> error = error output @ error tmp,
       jacobian = jacobian output @ jacobian tmp,
       status = (status output \<and> status tmp) \<rparr>"

subsection \<open>The constraint object\<close>

record AvoidObstacles =
  links :: "(string \<times> LinkAvoidance) list"
  link_names :: "string list"
  link_models :: "string set"
  initialized :: bool

text \<open>A constraint as its constructor leaves it: nothing configured, not yet bound.\<close>

definition AvoidObstacles_new :: AvoidObstacles where
  "AvoidObstacles_new = \<lparr> links = [], link_names = [], link_models = {}, initialized = False \<rparr>"

datatype log_msg = WARN string | ERROR string

text \<open>
  What \<^verbatim>\<open>init\<close> asks of the solver \<^verbatim>\<open>ik_\<close> and of its kinematics \<^verbatim>\<open>getKin()\<close>.
\<close>

record Constrained_IK =
  getLinkNames :: "string list"
  numJoints :: nat
  getSubChain :: "string \<Rightarrow> Chain option"
  getRobotBaseLinkName :: string
  getLinkModels :: "string list"

subsection \<open>init\<close>

text \<open>
  Modelled from the spec: \<^verbatim>\<open>Constraint::init\<close> of the base class is not in the source
  file; binding starts from a valid constraint, which a failure then marks invalid (3, 4.1).
\<close>

definition Constraint_init :: "Constrained_IK \<Rightarrow> AvoidObstacles \<Rightarrow> AvoidObstacles" where
  "Constraint_init ik s = s\<lparr> initialized := True \<rparr>"

text \<open>
  The loop over \<^verbatim>\<open>links_\<close>. It returns the entries as the loop leaves them, the error it
  logged and whether it ran to the end; at the first link without a sub-chain it stops,
  after it has stored \<^verbatim>\<open>num_robot_joints_\<close> for that link.
\<close>

fun init_links ::
  "Constrained_IK \<Rightarrow> (string \<times> LinkAvoidance) list \<Rightarrow>
   (string \<times> LinkAvoidance) list \<times> log_msg list \<times> bool" where
  "init_links ik [] = ([], [], True)"
| "init_links ik ((k, l) # rest) =
     (let l = l\<lparr> num_robot_joints := numJoints ik \<rparr> in
      case getSubChain ik (link_name l) of
        None \<Rightarrow>
          ((k, l) # rest,
           [ERROR (''Failed to initialize Avoid Obstalces constraint because''
                   @ ''it failed to create a KDL chain between URDF links: ''
                   @ [CHR 0x27] @ getRobotBaseLinkName ik @ [CHR 0x27] @ '' and ''
                   @ [CHR 0x27] @ link_name l @ [CHR 0x27])],
           False)
      | Some avoid_chain \<Rightarrow>
          (let l = l\<lparr> num_inboard_joints := getNrOfJoints avoid_chain,
                      jac_solver := Some (JntToJac avoid_chain) \<rparr>;
               (rest', msgs, ok) = init_links ik rest
           in ((k, l) # rest', msgs, ok)))"

definition init :: "Constrained_IK \<Rightarrow> AvoidObstacles \<Rightarrow> log_msg list \<times> AvoidObstacles" where
  "init ik s =
     (let s = Constraint_init ik s;
          (msgs0, s) =
             (if length (link_names s) = 0
              then ([WARN ''Avoid Obstacles: No links were specified therefore using all links in kinematic chain.''],
                    s\<lparr> link_names := getLinkNames ik \<rparr>)
              else ([], s));
          (ls, msgs, ok) = init_links ik (links s)
      in if \<not> ok then (msgs0 @ msgs, s\<lparr> links := ls, initialized := False \<rparr>)
         else (msgs0 @ msgs,
               s\<lparr> links := ls,
                  link_models := link_models s \<union>
                    set (filter (\<lambda>n. n \<in> set (link_names s)) (getLinkModels ik)) \<rparr>))"

subsection \<open>evalConstraint\<close>

definition AvoidObstaclesData_new :: "SolverState \<Rightarrow> AvoidObstacles \<Rightarrow> AvoidObstaclesData" where
  "AvoidObstaclesData_new st parent =
     \<lparr> state = st, distance_info_map = distanceSelfDetailed st (link_models parent) \<rparr>"

text \<open>
  The loop over \<^verbatim>\<open>links_\<close>, from the output so far. \<open>uninit\<close> gives, for each link, the
  content of the error vector that \<open>calcError\<close> allocates for it.
\<close>

fun evalLinks ::
  "(string \<Rightarrow> real) \<Rightarrow> AvoidObstaclesData \<Rightarrow> (string \<times> LinkAvoidance) list \<Rightarrow>
   ConstraintResults \<Rightarrow> failure + ConstraintResults" where
  "evalLinks uninit cdata [] output = Inr output"
| "evalLinks uninit cdata ((k, l) # rest) output =
     (let e = calcError (uninit k) cdata l in
      case calcJacobian cdata l of
        Inl f \<Rightarrow> Inl f
      | Inr j \<Rightarrow>
          evalLinks uninit cdata rest
            (append_results output \<lparr> error = e, jacobian = j, status = checkStatus cdata l \<rparr>))"

definition evalConstraint ::
  "(string \<Rightarrow> real) \<Rightarrow> SolverState \<Rightarrow> AvoidObstacles \<Rightarrow> failure + ConstraintResults" where
  "evalConstraint uninit st self =
     evalLinks uninit (AvoidObstaclesData_new st self) (links self) ConstraintResults_new"

subsection \<open>Registering links and setting their parameters\<close>

text \<open>
  Modelled from the spec: \<^verbatim>\<open>addAvoidanceLink\<close> and the four setters are defined in the
  header, which is not in the source file. By 4.1 of the spec, \<^verbatim>\<open>addAvoidanceLink\<close>
  registers a link with the default parameters unless it is already present, and a setter
  changes the entry of a registered link and is an error on any other name.
\<close>

definition addAvoidanceLink :: "nat \<times> nat \<Rightarrow> string \<Rightarrow> AvoidObstacles \<Rightarrow> AvoidObstacles" where
  "addAvoidanceLink junk name s =
     (case map_of (links s) name of
        Some _ \<Rightarrow> s
      | None \<Rightarrow>
          s\<lparr> links := insort_key fst (name, LinkAvoidance_new junk name) (links s),
             link_names := link_names s @ [name] \<rparr>)"

definition setLinkData ::
  "(LinkAvoidance \<Rightarrow> LinkAvoidance) \<Rightarrow> string \<Rightarrow> AvoidObstacles \<Rightarrow> failure + AvoidObstacles" where
  "setLinkData f name s =
     (case map_of (links s) name of
        Some _ \<Rightarrow> Inr (s\<lparr> links := AList.map_entry name f (links s) \<rparr>)
      | None \<Rightarrow> Inl (UnregisteredLink name))"

definition setAmplitude :: "string \<Rightarrow> real \<Rightarrow> AvoidObstacles \<Rightarrow> failure + AvoidObstacles" where
  "setAmplitude name v = setLinkData (\<lambda>l. l\<lparr> amplitude := v \<rparr>) name"

definition setMinDistance :: "string \<Rightarrow> real \<Rightarrow> AvoidObstacles \<Rightarrow> failure + AvoidObstacles" where
  "setMinDistance name v = setLinkData (\<lambda>l. l\<lparr> min_distance := v \<rparr>) name"

definition setAvoidanceDistance :: "string \<Rightarrow> real \<Rightarrow> AvoidObstacles \<Rightarrow> failure + AvoidObstacles" where
  "setAvoidanceDistance name v = setLinkData (\<lambda>l. l\<lparr> avoidance_distance := v \<rparr>) name"

definition setWeight :: "string \<Rightarrow> real \<Rightarrow> AvoidObstacles \<Rightarrow> failure + AvoidObstacles" where
  "setWeight name v = setLinkData (\<lambda>l. l\<lparr> weight := v \<rparr>) name"

subsection \<open>loadParameters\<close>

text \<open>
  The members of the \<^verbatim>\<open>XmlRpcValue\<close> that \<^verbatim>\<open>loadParameters\<close> asks for. \<^verbatim>\<open>getParam\<close>
  (external) answers whether the member is there; a member that is there is its array.
\<close>

record XmlRpcValue =
  xml_link_names :: "string list option"
  xml_amplitude :: "real list option"
  xml_minimum_distance :: "real list option"
  xml_avoidance_distance :: "real list option"
  xml_weight :: "real list option"

text \<open>
  The source reads each of the four arrays with the same block of code, which differs only
  in the name of the member: the vector starts empty; a member that is there but not of the
  size of \<^verbatim>\<open>link_names\<close> is cleared with a warning; a member that is not there leaves the
  vector empty, with another warning. \<open>getParamSized\<close> is that block: it returns the
  warnings and the vector.
\<close>

definition getParamSized :: "string \<Rightarrow> nat \<Rightarrow> real list option \<Rightarrow> log_msg list \<times> real list" where
  "getParamSized member n xml =
     (case xml of
        Some v \<Rightarrow>
          if n \<noteq> length v
          then ([WARN (''Abstacle Avoidance: '' @ member
                       @ '' memebr must be same size array as link_names member, default parameters will be used.'')],
                [])
          else ([], v)
      | None \<Rightarrow>
          ([WARN (''Abstacle Avoidance: Unable to retrieving '' @ member
                  @ '' member, default parameter will be used.'')],
           []))"

text \<open>Sequencing of steps that may fail.\<close>

definition and_then :: "failure + 'a \<Rightarrow> ('a \<Rightarrow> failure + 'b) \<Rightarrow> failure + 'b" where
  "and_then r f = (case r of Inl e \<Rightarrow> Inl e | Inr x \<Rightarrow> f x)"

text \<open>The body of the loop over the indices of \<^verbatim>\<open>link_names\<close>, at index \<open>i\<close>.\<close>

definition load_link ::
  "(nat \<Rightarrow> nat \<times> nat) \<Rightarrow> string list \<Rightarrow> real list \<Rightarrow> real list \<Rightarrow> real list \<Rightarrow> real list \<Rightarrow>
   nat \<Rightarrow> AvoidObstacles \<Rightarrow> failure + AvoidObstacles" where
  "load_link junk names amp min_dist avoid_dist wgt i s =
     and_then (Inr (addAvoidanceLink (junk i) (names ! i) s)) (\<lambda>s.
     and_then (if amp \<noteq> [] then setAmplitude (names ! i) (amp ! i) s else Inr s) (\<lambda>s.
     and_then (if min_dist \<noteq> [] then setMinDistance (names ! i) (min_dist ! i) s else Inr s) (\<lambda>s.
     and_then (if avoid_dist \<noteq> [] then setAvoidanceDistance (names ! i) (avoid_dist ! i) s else Inr s) (\<lambda>s.
              (if wgt \<noteq> [] then setWeight (names ! i) (wgt ! i) s else Inr s)))))"

fun load_links ::
  "(nat \<Rightarrow> nat \<times> nat) \<Rightarrow> string list \<Rightarrow> real list \<Rightarrow> real list \<Rightarrow> real list \<Rightarrow> real list \<Rightarrow>
   nat list \<Rightarrow> AvoidObstacles \<Rightarrow> failure + AvoidObstacles" where
  "load_links junk names amp min_dist avoid_dist wgt [] s = Inr s"
| "load_links junk names amp min_dist avoid_dist wgt (i # is) s =
     and_then (load_link junk names amp min_dist avoid_dist wgt i s)
       (load_links junk names amp min_dist avoid_dist wgt is)"

text \<open>
  \<open>junk i\<close> is the content of the memory in which the \<^verbatim>\<open>LinkAvoidance\<close> of index \<open>i\<close> is
  built, should that link be new.
\<close>

definition loadParameters ::
  "(nat \<Rightarrow> nat \<times> nat) \<Rightarrow> XmlRpcValue \<Rightarrow> AvoidObstacles \<Rightarrow>
   failure + (log_msg list \<times> AvoidObstacles)" where
  "loadParameters junk constraint_xml s =
     (case xml_link_names constraint_xml of
        Some names \<Rightarrow>
          (let (w1, amp) = getParamSized ''amplitude'' (length names) (xml_amplitude constraint_xml);
               (w2, min_dist) =
                  getParamSized ''minimum_distance'' (length names) (xml_minimum_distance constraint_xml);
               (w3, avoid_dist) =
                  getParamSized ''avoidance_distance'' (length names) (xml_avoidance_distance constraint_xml);
               (w4, wgt) = getParamSized ''weight'' (length names) (xml_weight constraint_xml)
           in and_then (load_links junk names amp min_dist avoid_dist wgt [0..<length names] s)
                (\<lambda>s. Inr (w1 @ w2 @ w3 @ w4, s)))
      | None \<Rightarrow>
          Inr ([WARN ''Abstacle Avoidance: Unable to retrieving link_names member, default parameter will be used.''],
               s))"

subsection \<open>Bound links\<close>

text \<open>
  What \<open>calcJacobian\<close> relies on when a link has a proximity entry: \<open>init\<close> has given the
  link a solver, the sub-chain to the link has no more joints than the whole chain, and the
  joint vector of the solver state covers the joints of the sub-chain.
\<close>

definition bound_link :: "AvoidObstaclesData \<Rightarrow> LinkAvoidance \<Rightarrow> bool" where
  "bound_link cdata link \<longleftrightarrow>
     jac_solver link \<noteq> None
     \<and> num_inboard_joints link \<le> num_robot_joints link
     \<and> num_inboard_joints link \<le> length (joints (state cdata))"

text \<open>
  The row that \<open>calcJacobian\<close> writes into the first \<open>n\<close> columns, as a function of the
  joint values \<open>js\<close>.
\<close>

definition projected_row :: "ChainJntToJacSolver \<Rightarrow> DistanceInfo \<Rightarrow> nat \<Rightarrow> real list \<Rightarrow> real list" where
  "projected_row solver it n js =
     transpose_times (avoidance_vector it)
       (topRows 3 (KDLToEigen (changeRefPoint (map (solver (take n js)) [0..<n]) (link_point it))))"

subsection \<open>A chain of three links\<close>

text \<open>
  The example of the spec: a chain of three joints, \<^verbatim>\<open>link_2\<close> behind the second joint
  with the default parameters, its closest point at \<open>(0, 0, 0.5)\<close> and the direction away
  from the obstacle \<open>(1, 0, 0)\<close>.
\<close>

definition ex_solver :: ChainJntToJacSolver where
  "ex_solver q i = \<lparr> vel = (sum_list q, real i, 0), rot = (0, 0, 1) \<rparr>"

definition ex_link :: LinkAvoidance where
  "ex_link = \<lparr> weight = 1, min_distance = 0.1, avoidance_distance = 0.3, amplitude = 0.3,
      num_robot_joints = 3, num_inboard_joints = 2, jac_solver = Some ex_solver,
      link_name = ''link_2'' \<rparr>"

definition ex_info :: "real \<Rightarrow> DistanceInfo" where
  "ex_info d = \<lparr> distance = d, link_point = (0, 0, 0.5), avoidance_vector = (1, 0, 0) \<rparr>"

definition ex_state :: "real list \<Rightarrow> (string \<rightharpoonup> DistanceInfo) \<Rightarrow> SolverState" where
  "ex_state js m = \<lparr> joints = js, distanceSelfDetailed = (\<lambda>_. m) \<rparr>"

definition ex_cdata :: "real list \<Rightarrow> (string \<rightharpoonup> DistanceInfo) \<Rightarrow> AvoidObstaclesData" where
  "ex_cdata js m = \<lparr> state = ex_state js m, distance_info_map = m \<rparr>"

definition ex_chain :: "nat \<Rightarrow> Chain" where
  "ex_chain n = \<lparr> getNrOfJoints = n, JntToJac = ex_solver \<rparr>"

definition ex_ik :: Constrained_IK where
  "ex_ik = \<lparr> getLinkNames = [''link_1'', ''link_2'', ''link_3''],
             numJoints = 3,
             getSubChain = (\<lambda>n. if n = ''link_1'' then Some (ex_chain 1)
                                else if n = ''link_2'' then Some (ex_chain 2)
                                else if n = ''link_3'' then Some (ex_chain 3) else None),
             getRobotBaseLinkName = ''base_link'',
             getLinkModels = [''link_1'', ''link_2'', ''link_3''] \<rparr>"

definition ex_self :: AvoidObstacles where
  "ex_self = \<lparr> links = [(''link_2'', ex_link)], link_names = [''link_2''],
               link_models = {''link_2''}, initialized = True \<rparr>"

text \<open>A constraint configured with one link that is not part of the chain.\<close>

definition ex_unbound :: AvoidObstacles where
  "ex_unbound = addAvoidanceLink (0, 0) ''gripper'' AvoidObstacles_new"

subsection \<open>Reading the outcome of loadParameters\<close>

text \<open>
  The value of a parameter (\<open>g\<close> reads it, \<open>d\<close> is its default) that link \<open>n\<close> has in
  \<^verbatim>\<open>links_\<close>, or would get on being registered.
\<close>

definition param_of :: "(LinkAvoidance \<Rightarrow> real) \<Rightarrow> real \<Rightarrow> AvoidObstacles \<Rightarrow> string \<Rightarrow> real" where
  "param_of g d s n = (case map_of (links s) n of None \<Rightarrow> d | Some l \<Rightarrow> g l)"

text \<open>The entry that one pass of the loop body leaves for the link of index \<open>i\<close>.\<close>

definition loaded_link ::
  "(nat \<Rightarrow> nat \<times> nat) \<Rightarrow> string list \<Rightarrow> real list \<Rightarrow> real list \<Rightarrow> real list \<Rightarrow> real list \<Rightarrow>
   nat \<Rightarrow> AvoidObstacles \<Rightarrow> LinkAvoidance" where
  "loaded_link junk names amp min_dist avoid_dist wgt i s =
     (let l = (case map_of (links s) (names ! i) of
                 None \<Rightarrow> LinkAvoidance_new (junk i) (names ! i) | Some l \<Rightarrow> l)
      in l\<lparr> amplitude := (if amp \<noteq> [] then amp ! i else amplitude l),
            min_distance := (if min_dist \<noteq> [] then min_dist ! i else min_distance l),
            avoidance_distance := (if avoid_dist \<noteq> [] then avoid_dist ! i else avoidance_distance l),
            weight := (if wgt \<noteq> [] then wgt ! i else weight l) \<rparr>)"

text \<open>
  The four array members by name, to state a property of any one of them: the name under
  which \<open>loadParameters\<close> asks for the member, the array in the configuration, the field of
  \<open>LinkAvoidance\<close> it sets and the default of that field.
\<close>

datatype member = Amplitude | MinimumDistance | AvoidanceDistance | Weight

fun member_name :: "member \<Rightarrow> string" where
  "member_name Amplitude = ''amplitude''"
| "member_name MinimumDistance = ''minimum_distance''"
| "member_name AvoidanceDistance = ''avoidance_distance''"
| "member_name Weight = ''weight''"

fun xml_member :: "member \<Rightarrow> XmlRpcValue \<Rightarrow> real list option" where
  "xml_member Amplitude = xml_amplitude"
| "xml_member MinimumDistance = xml_minimum_distance"
| "xml_member AvoidanceDistance = xml_avoidance_distance"
| "xml_member Weight = xml_weight"

fun member_value :: "member \<Rightarrow> LinkAvoidance \<Rightarrow> real" where
  "member_value Amplitude = amplitude"
| "member_value MinimumDistance = min_distance"
| "member_value AvoidanceDistance = avoidance_distance"
| "member_value Weight = weight"

fun member_default :: "member \<Rightarrow> real" where
  "member_default Amplitude = DEFAULT_AMPLITUDE"
| "member_default MinimumDistance = DEFAULT_MIN_DISTANCE"
| "member_default AvoidanceDistance = DEFAULT_AVOIDANCE_DISTANCE"
| "member_default Weight = DEFAULT_WEIGHT"

definition sized_member :: "string list \<Rightarrow> XmlRpcValue \<Rightarrow> member \<Rightarrow> log_msg list \<times> real list" where
  "sized_member names xml m = getParamSized (member_name m) (length names) (xml_member m xml)"

text \<open>
  A configuration of two links whose \<^verbatim>\<open>amplitude\<close> array has one value only and which has
  no \<^verbatim>\<open>avoidance_distance\<close> member.
\<close>

definition ex_xml :: XmlRpcValue where
  "ex_xml = \<lparr> xml_link_names = Some [''link_1'', ''link_2''],
              xml_amplitude = Some [0.5],
              xml_minimum_distance = Some [0.2, 0.4],
              xml_avoidance_distance = None,
              xml_weight = Some [2, 3] \<rparr>"

text \<open>
  A constraint on which \<^verbatim>\<open>link_1\<close> has been registered and given the amplitude 0.75 before
  any configuration is loaded.
\<close>

definition ex_configured :: AvoidObstacles where
  "ex_configured =
     \<lparr> links = [(''link_1'', (LinkAvoidance_new (0, 0) ''link_1'')\<lparr> amplitude := 0.75 \<rparr>)],
       link_names = [''link_1''], link_models = {}, initialized = False \<rparr>"

section \<open>The error model\<close>

lemma calcError_Some:
  "distance_info_map cdata (link_name link) = Some it \<Longrightarrow>
   calcError uninit cdata link =
     [amplitude link / (1 + exp (distance it / (avoidance_distance link / 15) - 5))]"
  by (simp add: calcError_def DEFAULT_ZERO_POINT_def DEFAULT_SHIFT_def)

lemma calcError_None:
  "distance_info_map cdata (link_name link) = None \<Longrightarrow> calcError uninit cdata link = [uninit]"
  by (simp add: calcError_def)

lemma length_calcError: "length (calcError uninit cdata link) = 1"
  by (cases "distance_info_map cdata (link_name link)") (simp_all add: calcError_Some calcError_None)

text \<open>
  Claim C1. For a link with a proximity entry of distance \<open>d\<close>, \<open>calcError\<close> returns the one
  scalar \<open>amplitude / (1 + exp (d / (avoidanceDistance / (ZERO_POINT + SHIFT)) - SHIFT))\<close>
  with \<open>ZERO_POINT = 10\<close> and \<open>SHIFT = 5\<close>, whatever the vector held before; at \<open>d = 0\<close>
  (the avoidance distance being other than zero, so that the scale divides) this is
  \<open>amplitude / (1 + exp (-5))\<close>.
\<close>

theorem calcError_formula:
  assumes "distance_info_map cdata (link_name link) = Some it"
  shows "calcError uninit cdata link =
           [amplitude link / (1 + exp (distance it / (avoidance_distance link / (10 + 5)) - 5))]
         \<and> (distance it = 0 \<and> avoidance_distance link \<noteq> 0 \<longrightarrow>
              calcError uninit cdata link = [amplitude link / (1 + exp (- 5))])"
  using assms by (simp add: calcError_Some)

theorem calcError_formula_witness:
  "distance_info_map (ex_cdata [0.1, 0.2, 0.3] [''link_2'' \<mapsto> ex_info 0]) (link_name ex_link)
     = Some (ex_info 0)
   \<and> distance (ex_info 0) = 0 \<and> avoidance_distance ex_link \<noteq> 0
   \<and> calcError 7 (ex_cdata [0.1, 0.2, 0.3] [''link_2'' \<mapsto> ex_info 0]) ex_link = [0.3 / (1 + exp (- 5))]"
  using calcError_formula [of "ex_cdata [0.1, 0.2, 0.3] [''link_2'' \<mapsto> ex_info 0]" ex_link "ex_info 0" 7]
  by (simp add: ex_cdata_def ex_link_def ex_info_def)

lemma sigmoid_antimono:
  fixes a s d1 d2 :: real
  assumes "0 \<le> a" "0 < s" "d1 \<le> d2"
  shows "a / (1 + exp (d2 / s - 5)) \<le> a / (1 + exp (d1 / s - 5))"
proof -
  have "d1 / s \<le> d2 / s" using assms by (simp add: divide_right_mono)
  then have "exp (d1 / s - 5) \<le> exp (d2 / s - 5)" by simp
  moreover have "0 < 1 + exp (d1 / s - 5)" by (simp add: add_pos_pos)
  ultimately show ?thesis using assms(1) by (intro divide_left_mono) (simp_all add: add_pos_pos)
qed

text \<open>
  Claim C7. For a link with positive amplitude and positive avoidance distance, and two
  snapshots whose entries for the link have distances \<open>d1 < d2\<close>, the error at \<open>d1\<close> is at
  least the error at \<open>d2\<close>.
\<close>

theorem calcError_monotone:
  assumes "distance_info_map cdata1 (link_name link) = Some it1"
      and "distance_info_map cdata2 (link_name link) = Some it2"
      and "distance it1 < distance it2"
      and "0 < amplitude link" and "0 < avoidance_distance link"
  shows "\<exists>e1 e2. calcError u1 cdata1 link = [e1] \<and> calcError u2 cdata2 link = [e2] \<and> e2 \<le> e1"
proof -
  have "amplitude link / (1 + exp (distance it2 / (avoidance_distance link / 15) - 5))
        \<le> amplitude link / (1 + exp (distance it1 / (avoidance_distance link / 15) - 5))"
    using assms(3-5) by (intro sigmoid_antimono) simp_all
  then show ?thesis using assms(1,2) by (simp add: calcError_Some)
qed

theorem calcError_monotone_witness:
  "distance (ex_info 0.05) < distance (ex_info 0.2) \<and> 0 < amplitude ex_link \<and> 0 < avoidance_distance ex_link
   \<and> (\<exists>e1 e2. calcError 0 (ex_cdata [] [''link_2'' \<mapsto> ex_info 0.05]) ex_link = [e1]
             \<and> calcError 0 (ex_cdata [] [''link_2'' \<mapsto> ex_info 0.2]) ex_link = [e2] \<and> e2 \<le> e1)"
  using calcError_monotone [of "ex_cdata [] [''link_2'' \<mapsto> ex_info 0.05]" ex_link "ex_info 0.05"
     "ex_cdata [] [''link_2'' \<mapsto> ex_info 0.2]" "ex_info 0.2" 0 0]
  by (simp add: ex_cdata_def ex_link_def ex_info_def)

text \<open>
  The bounds of the error in the real-valued model: with a positive amplitude the quotient
  lies strictly between 0 and the amplitude, since the exponential is positive. This is a
  fact about exact arithmetic only. The C++ computes in doubles, where \<^verbatim>\<open>std::exp\<close>
  overflows to infinity once its argument exceeds about 709.8 (with the default avoidance
  distance 0.3, from a distance of about 14.3 on) and the quotient is then exactly 0: whether
  the computed error reaches a bound is a question of floating-point rounding and overflow,
  which this embedding does not represent.
\<close>

lemma calcError_real_bounds:
  assumes "distance_info_map cdata (link_name link) = Some it" and "0 < amplitude link"
  shows "\<exists>e. calcError uninit cdata link = [e] \<and> 0 < e \<and> e < amplitude link"
proof -
  let ?x = "exp (distance it / (avoidance_distance link / 15) - 5)"
  have "0 < ?x" by simp
  then have "1 < 1 + ?x" by simp
  with assms(2) have "0 < amplitude link / (1 + ?x)" "amplitude link / (1 + ?x) < amplitude link"
    by (simp_all add: add_pos_pos divide_less_eq)
  with assms(1) show ?thesis by (simp add: calcError_Some)
qed

section \<open>The status check\<close>

text \<open>
  Claim C2. \<open>checkStatus\<close> returns false exactly when the snapshot has an entry for the
  link whose distance is strictly below the link's minimum distance; without an entry, or
  at a distance of at least the minimum, it returns true.
\<close>

theorem checkStatus_iff:
  "\<not> checkStatus cdata link \<longleftrightarrow>
     (\<exists>it. distance_info_map cdata (link_name link) = Some it \<and> distance it < min_distance link)"
  by (simp add: checkStatus_def split: option.splits)

section \<open>The Jacobian row\<close>

lemma cols_KDLToEigen [simp]: "cols (KDLToEigen jac) = length jac"
  by (simp add: KDLToEigen_def cols_def)

lemma cols_topRows_KDLToEigen [simp]: "cols (topRows 3 (KDLToEigen jac)) = length jac"
  by (simp add: KDLToEigen_def cols_def topRows_def)

lemma length_changeRefPoint [simp]: "length (changeRefPoint jac p) = length jac"
  by (simp add: changeRefPoint_def)

lemma cols_single [simp]: "cols [r] = length r"
  by (simp add: cols_def)

lemma length_transpose_times [simp]: "length (transpose_times a m) = cols m"
  by (simp add: transpose_times_def)

lemma calcJacobian_None:
  "distance_info_map cdata (link_name link) = None \<Longrightarrow>
   calcJacobian cdata link = Inr [replicate (num_robot_joints link) 0]"
  by (simp add: calcJacobian_def)
lemma length_projected_row [simp]: "length (projected_row solver it n js) = n"
  by (simp add: projected_row_def)

lemma calcJacobian_Some:
  assumes "distance_info_map cdata (link_name link) = Some it"
      and "jac_solver link = Some solver"
      and "num_inboard_joints link \<le> num_robot_joints link"
      and "num_inboard_joints link \<le> length (joints (state cdata))"
  shows "calcJacobian cdata link =
           Inr [projected_row solver it (num_inboard_joints link) (joints (state cdata))
                @ replicate (num_robot_joints link - num_inboard_joints link) 0]"
  using assms
  by (simp add: calcJacobian_def Let_def block_assign_def projected_row_def)

lemma calcJacobian_total:
  assumes "distance_info_map cdata (link_name link) \<noteq> None \<longrightarrow> bound_link cdata link"
  shows "\<exists>row. calcJacobian cdata link = Inr [row] \<and> length row = num_robot_joints link"
proof (cases "distance_info_map cdata (link_name link)")
  case None
  then show ?thesis by (simp add: calcJacobian_None)
next
  case (Some it)
  with assms have b: "bound_link cdata link" by simp
  then obtain solver where "jac_solver link = Some solver"
    by (auto simp: bound_link_def)
  with Some b show ?thesis
    by (simp add: calcJacobian_Some bound_link_def)
qed

text \<open>
  Claim C4. For a link that is bound when the snapshot has an entry for it, and for any
  link when it has none, \<open>calcJacobian\<close> returns one row of \<open>totalJoints\<close> columns whose
  columns from \<open>inboardJoints\<close> on are 0; with an entry, the row is the same for every
  joint vector that agrees on its first \<open>inboardJoints\<close> values.
\<close>

theorem calcJacobian_row:
  assumes "distance_info_map cdata (link_name link) \<noteq> None \<longrightarrow> bound_link cdata link"
  shows "\<exists>row. calcJacobian cdata link = Inr [row]
           \<and> length row = num_robot_joints link
           \<and> (\<forall>j. num_inboard_joints link \<le> j \<and> j < num_robot_joints link \<longrightarrow> row ! j = 0)
           \<and> (distance_info_map cdata (link_name link) \<noteq> None \<longrightarrow>
                (\<forall>js. num_inboard_joints link \<le> length js
                      \<and> take (num_inboard_joints link) js
                          = take (num_inboard_joints link) (joints (state cdata)) \<longrightarrow>
                   calcJacobian (cdata\<lparr> state := (state cdata)\<lparr> joints := js \<rparr> \<rparr>) link = Inr [row]))"
proof (cases "distance_info_map cdata (link_name link)")
  case None
  then show ?thesis by (simp add: calcJacobian_None)
next
  case (Some it)
  with assms have b: "bound_link cdata link" by simp
  then obtain solver where s: "jac_solver link = Some solver"
    by (auto simp: bound_link_def)
  let ?n = "num_inboard_joints link"
  let ?row = "projected_row solver it ?n (joints (state cdata))
               @ replicate (num_robot_joints link - ?n) 0"
  from b have le: "?n \<le> num_robot_joints link" "?n \<le> length (joints (state cdata))"
    by (simp_all add: bound_link_def)
  have 1: "calcJacobian cdata link = Inr [?row]"
    using Some s le by (rule calcJacobian_Some)
  have 2: "length ?row = num_robot_joints link" using le by simp
  have 3: "\<forall>j. ?n \<le> j \<and> j < num_robot_joints link \<longrightarrow> ?row ! j = 0"
    by (auto simp: nth_append)
  have 4: "calcJacobian (cdata\<lparr> state := (state cdata)\<lparr> joints := js \<rparr> \<rparr>) link = Inr [?row]"
    if "?n \<le> length js" "take ?n js = take ?n (joints (state cdata))" for js
  proof -
    have "calcJacobian (cdata\<lparr> state := (state cdata)\<lparr> joints := js \<rparr> \<rparr>) link
            = Inr [projected_row solver it ?n js @ replicate (num_robot_joints link - ?n) 0]"
      using Some s le(1) that(1)
        calcJacobian_Some [of "cdata\<lparr> state := (state cdata)\<lparr> joints := js \<rparr> \<rparr>" link it solver]
      by simp
    moreover have "projected_row solver it ?n js
                     = projected_row solver it ?n (joints (state cdata))"
      using that(2) by (simp add: projected_row_def)
    ultimately show ?thesis by simp
  qed
  from 1 2 3 4 show ?thesis by blast
qed

theorem calcJacobian_row_witness:
  "bound_link (ex_cdata [0.1, 0.2, 0.3] [''link_2'' \<mapsto> ex_info 0.05]) ex_link
   \<and> calcJacobian (ex_cdata [0.1, 0.2, 0.3] [''link_2'' \<mapsto> ex_info 0.05]) ex_link = Inr [[0.3, 0.3, 0]]
   \<and> calcJacobian (ex_cdata [0.1, 0.2, 0.9] [''link_2'' \<mapsto> ex_info 0.05]) ex_link = Inr [[0.3, 0.3, 0]]"
proof -
  let ?c = "ex_cdata [0.1, 0.2, 0.3] [''link_2'' \<mapsto> ex_info 0.05]"
  have b: "bound_link ?c ex_link"
    by (simp add: bound_link_def ex_cdata_def ex_state_def ex_link_def)
  have e: "distance_info_map ?c (link_name ex_link) \<noteq> None"
    by (simp add: ex_cdata_def ex_link_def)
  from calcJacobian_row [of ?c ex_link] b obtain row where
    r: "calcJacobian ?c ex_link = Inr [row]" "length row = num_robot_joints ex_link"
       "\<forall>j. num_inboard_joints ex_link \<le> j \<and> j < num_robot_joints ex_link \<longrightarrow> row ! j = 0"
       "\<forall>js. num_inboard_joints ex_link \<le> length js
              \<and> take (num_inboard_joints ex_link) js
                  = take (num_inboard_joints ex_link) (joints (state ?c)) \<longrightarrow>
             calcJacobian (?c\<lparr> state := (state ?c)\<lparr> joints := js \<rparr> \<rparr>) ex_link = Inr [row]"
    using e by blast
  have v: "calcJacobian ?c ex_link = Inr [[0.3, 0.3, 0]]"
    by (simp add: calcJacobian_def ex_cdata_def ex_state_def ex_link_def ex_info_def
          ex_solver_def block_assign_def KDLToEigen_def changeRefPoint_def RefPoint_def
          transpose_times_def topRows_def cols_def upt_rec [of 0] numeral_2_eq_2)
  from r(4) have "calcJacobian (?c\<lparr> state := (state ?c)\<lparr> joints := [0.1, 0.2, 0.9] \<rparr> \<rparr>) ex_link = Inr [row]"
    by (simp add: ex_link_def ex_cdata_def ex_state_def)
  moreover have "?c\<lparr> state := (state ?c)\<lparr> joints := [0.1, 0.2, 0.9] \<rparr> \<rparr>
                   = ex_cdata [0.1, 0.2, 0.9] [''link_2'' \<mapsto> ex_info 0.05]"
    by (simp add: ex_cdata_def ex_state_def)
  ultimately show ?thesis using b v r(1) by simp
qed

section \<open>Evaluation\<close>

lemma evalLinks_ok:
  assumes "\<forall>(k, l) \<in> set ls. distance_info_map cdata (link_name l) \<noteq> None \<longrightarrow> bound_link cdata l"
  shows "\<exists>out'. evalLinks u cdata ls out = Inr out'
           \<and> length (error out') = length (error out) + length ls
           \<and> map length (jacobian out') = map length (jacobian out) @ map (num_robot_joints \<circ> snd) ls
           \<and> status out' = (status out \<and> (\<forall>(k, l) \<in> set ls. checkStatus cdata l))"
  using assms
proof (induction ls arbitrary: out)
  case Nil
  then show ?case by simp
next
  case (Cons p ls)
  obtain k l where p: "p = (k, l)" by (cases p)
  from Cons.prems p have "distance_info_map cdata (link_name l) \<noteq> None \<longrightarrow> bound_link cdata l"
    by simp
  from calcJacobian_total [OF this] obtain row where
    row: "calcJacobian cdata l = Inr [row]" "length row = num_robot_joints l" by blast
  have e: "length (calcError (u k) cdata l) = 1"
    by (rule length_calcError)
  let ?out = "append_results out
                \<lparr> error = calcError (u k) cdata l, jacobian = [row], status = checkStatus cdata l \<rparr>"
  from Cons.prems have "\<forall>(k, l) \<in> set ls. distance_info_map cdata (link_name l) \<noteq> None \<longrightarrow> bound_link cdata l"
    by simp
  from Cons.IH [OF this, of ?out] obtain out' where
    o: "evalLinks u cdata ls ?out = Inr out'"
       "length (error out') = length (error ?out) + length ls"
       "map length (jacobian out') = map length (jacobian ?out) @ map (num_robot_joints \<circ> snd) ls"
       "status out' = (status ?out \<and> (\<forall>(k, l) \<in> set ls. checkStatus cdata l))"
    by blast
  have "evalLinks u cdata (p # ls) out = Inr out'"
    using o(1) row(1) p by simp
  moreover have "length (error out') = length (error out) + length (p # ls)"
    using o(2) e by (simp add: append_results_def)
  moreover have "map length (jacobian out')
                   = map length (jacobian out) @ map (num_robot_joints \<circ> snd) (p # ls)"
    using o(3) row(2) p by (simp add: append_results_def)
  moreover have "status out' = (status out \<and> (\<forall>(k, l) \<in> set (p # ls). checkStatus cdata l))"
    using o(4) p by (auto simp: append_results_def)
  ultimately show ?case by blast
qed

text \<open>
  Claim C10. \<open>calcError\<close> returns a vector of dimension 1 for every link and snapshot, and
  \<open>calcJacobian\<close> one row of \<open>totalJoints\<close> columns, with or without an entry for the link
  (a link with an entry being bound); so \<open>evalConstraint\<close> returns, for a constraint whose
  links with an entry are bound, one error scalar and one Jacobian row for each configured
  link, the row as long as that link's \<open>totalJoints\<close>.
\<close>

theorem evaluate_dimensions:
  assumes "\<forall>(k, l) \<in> set (links self).
             distance_info_map (AvoidObstaclesData_new st self) (link_name l) \<noteq> None \<longrightarrow>
             bound_link (AvoidObstaclesData_new st self) l"
  shows "length (calcError uninit cdata link) = 1
         \<and> ((distance_info_map cdata (link_name link) \<noteq> None \<longrightarrow> bound_link cdata link) \<longrightarrow>
              (\<exists>row. calcJacobian cdata link = Inr [row] \<and> length row = num_robot_joints link))
         \<and> (\<exists>out. evalConstraint u st self = Inr out
                \<and> length (error out) = length (links self)
                \<and> map length (jacobian out) = map (num_robot_joints \<circ> snd) (links self))"
proof -
  have 1: "length (calcError uninit cdata link) = 1"
    by (rule length_calcError)
  have 2: "\<exists>row. calcJacobian cdata link = Inr [row] \<and> length row = num_robot_joints link"
    if "distance_info_map cdata (link_name link) \<noteq> None \<longrightarrow> bound_link cdata link"
    using calcJacobian_total [OF that] by blast
  from evalLinks_ok [OF assms, of u ConstraintResults_new]
  have 3: "\<exists>out. evalConstraint u st self = Inr out
                \<and> length (error out) = length (links self)
                \<and> map length (jacobian out) = map (num_robot_joints \<circ> snd) (links self)"
    by (auto simp: evalConstraint_def ConstraintResults_new_def)
  from 1 2 3 show ?thesis by blast
qed

theorem evaluate_dimensions_witness:
  "links ex_self = [(''link_2'', ex_link)]
   \<and> bound_link (AvoidObstaclesData_new (ex_state [0.1, 0.2, 0.3] [''link_2'' \<mapsto> ex_info 0.05]) ex_self) ex_link
   \<and> length (calcError 7 (ex_cdata [0.1, 0.2, 0.3] Map.empty) ex_link) = 1
   \<and> (\<exists>row. calcJacobian (ex_cdata [0.1, 0.2, 0.3] Map.empty) ex_link = Inr [row] \<and> length row = 3)
   \<and> (\<exists>out. evalConstraint (\<lambda>_. 7) (ex_state [0.1, 0.2, 0.3] [''link_2'' \<mapsto> ex_info 0.05]) ex_self = Inr out
          \<and> length (error out) = 1 \<and> map length (jacobian out) = [3])"
proof -
  let ?st = "ex_state [0.1, 0.2, 0.3] [''link_2'' \<mapsto> ex_info 0.05]"
  have l: "links ex_self = [(''link_2'', ex_link)]"
    by (simp add: ex_self_def)
  have b: "bound_link (AvoidObstaclesData_new ?st ex_self) ex_link"
    by (simp add: AvoidObstaclesData_new_def bound_link_def ex_link_def ex_state_def)
  have h: "\<forall>(k, l) \<in> set (links ex_self).
      distance_info_map (AvoidObstaclesData_new ?st ex_self) (link_name l) \<noteq> None \<longrightarrow>
      bound_link (AvoidObstaclesData_new ?st ex_self) l"
    using b by (simp add: l)
  have n: "distance_info_map (ex_cdata [0.1, 0.2, 0.3] Map.empty) (link_name ex_link) \<noteq> None \<longrightarrow>
           bound_link (ex_cdata [0.1, 0.2, 0.3] Map.empty) ex_link"
    by (simp add: ex_cdata_def)
  from evaluate_dimensions [OF h, of 7 "ex_cdata [0.1, 0.2, 0.3] Map.empty" ex_link "\<lambda>_. 7"] n
  have "length (calcError 7 (ex_cdata [0.1, 0.2, 0.3] Map.empty) ex_link) = 1
        \<and> (\<exists>row. calcJacobian (ex_cdata [0.1, 0.2, 0.3] Map.empty) ex_link = Inr [row] \<and> length row = 3)
        \<and> (\<exists>out. evalConstraint (\<lambda>_. 7) ?st ex_self = Inr out
               \<and> length (error out) = 1 \<and> map length (jacobian out) = [3])"
    by (simp add: ex_self_def ex_link_def)
  with l b show ?thesis by blast
qed

text \<open>
  Claim C3. A link without a proximity entry, here \<^verbatim>\<open>link_2\<close> of the example: the Jacobian
  row is the zero row of length \<open>totalJoints\<close> and the status is true, but the error is the
  content of the coefficient that \<^verbatim>\<open>resize\<close> left uninitialised, here 1, and not 0.
\<close>

theorem calcError_absent_uninitialised:
  "distance_info_map (ex_cdata [0.1, 0.2, 0.3] Map.empty) (link_name ex_link) = None
   \<and> calcError 1 (ex_cdata [0.1, 0.2, 0.3] Map.empty) ex_link = [1]
   \<and> calcJacobian (ex_cdata [0.1, 0.2, 0.3] Map.empty) ex_link = Inr [[0, 0, 0]]
   \<and> checkStatus (ex_cdata [0.1, 0.2, 0.3] Map.empty) ex_link"
  by (simp add: calcError_def calcJacobian_def checkStatus_def ex_cdata_def ex_link_def
        numeral_3_eq_3)

section \<open>Binding\<close>

lemma init_links_length: "length (fst (init_links ik ls)) = length ls"
  by (induction ls) (auto simp: Let_def split: option.splits prod.splits)

lemma init_links_ok_iff:
  "snd (snd (init_links ik ls)) \<longleftrightarrow> (\<forall>(k, l) \<in> set ls. getSubChain ik (link_name l) \<noteq> None)"
  by (induction ls) (auto simp: Let_def split: option.splits prod.splits)

text \<open>
  A binding loop that runs to the end leaves every link with the solver of its sub-chain,
  the number of joints of that sub-chain and the number of joints of the whole chain.
\<close>

lemma init_links_bound:
  assumes "snd (snd (init_links ik ls))" and "(k, l) \<in> set (fst (init_links ik ls))"
  shows "\<exists>c. getSubChain ik (link_name l) = Some c \<and> jac_solver l = Some (JntToJac c)
             \<and> num_inboard_joints l = getNrOfJoints c \<and> num_robot_joints l = numJoints ik"
  using assms
  by (induction ls) (auto simp: Let_def split: option.splits prod.splits)

lemma init_initialized:
  "initialized (snd (init ik s)) \<longleftrightarrow> (\<forall>(k, l) \<in> set (links s). getSubChain ik (link_name l) \<noteq> None)"
  using init_links_ok_iff [of ik "links s"]
  by (auto simp: init_def Constraint_init_def Let_def split: prod.splits)

lemma init_links_eq: "links (snd (init ik s)) = fst (init_links ik (links s))"
  by (auto simp: init_def Constraint_init_def Let_def split: prod.splits)

lemma evalConstraint_initialized:
  "evalConstraint u st (s\<lparr> initialized := b \<rparr>) = evalConstraint u st s"
  by (simp add: evalConstraint_def AvoidObstaclesData_new_def)

text \<open>
  Claim C5. \<open>init\<close> on a constraint without configured links, for the chain of three links:
  it warns and takes the names of all three links into \<^verbatim>\<open>link_names_\<close> and \<^verbatim>\<open>link_models_\<close>,
  but \<^verbatim>\<open>links_\<close>, over which \<open>evalConstraint\<close> iterates, stays empty, and the evaluation
  that follows returns no contribution at all.
\<close>

theorem init_unconfigured:
  "length (getLinkNames ex_ik) = 3
   \<and> init ex_ik AvoidObstacles_new =
       ([WARN ''Avoid Obstacles: No links were specified therefore using all links in kinematic chain.''],
        \<lparr> links = [], link_names = [''link_1'', ''link_2'', ''link_3''],
          link_models = {''link_1'', ''link_2'', ''link_3''}, initialized = True \<rparr>)
   \<and> evalConstraint u st (snd (init ex_ik AvoidObstacles_new))
       = Inr \<lparr> error = [], jacobian = [], status = True \<rparr>"
  by (simp add: init_def Constraint_init_def AvoidObstacles_new_def ex_ik_def evalConstraint_def
        ConstraintResults_new_def)

text \<open>
  Claim C6, as stated, fails: after a binding that failed, \<open>evalConstraint\<close> returns a
  contribution (here all zero) and reports nothing.
\<close>

theorem evaluate_after_failed_init_counterexample:
  "\<not> initialized (snd (init ex_ik ex_unbound))
   \<and> evalConstraint (\<lambda>_. 0) (ex_state [0.1, 0.2, 0.3] Map.empty) (snd (init ex_ik ex_unbound))
       = Inr \<lparr> error = [0], jacobian = [[0, 0, 0]], status = True \<rparr>"
  by (simp add: init_def Constraint_init_def ex_unbound_def addAvoidanceLink_def
        AvoidObstacles_new_def LinkAvoidance_new_def ex_ik_def evalConstraint_def
        AvoidObstaclesData_new_def ex_state_def calcError_def calcJacobian_def checkStatus_def
        ConstraintResults_new_def append_results_def numeral_3_eq_3)

text \<open>
  Claim C6, amended. If some configured link has no sub-chain, \<open>init\<close> marks the constraint
  invalid. \<open>evalConstraint\<close> does not read that mark: a later evaluation does exactly what
  it does for the same constraint marked valid.
\<close>

theorem evaluate_ignores_invalidity:
  assumes "\<exists>(k, l) \<in> set (links s). getSubChain ik (link_name l) = None"
  shows "\<not> initialized (snd (init ik s))
         \<and> evalConstraint u st (snd (init ik s))
             = evalConstraint u st ((snd (init ik s))\<lparr> initialized := True \<rparr>)"
proof -
  let ?s = "snd (init ik s)"
  have "\<not> initialized ?s" using assms by (fastforce simp: init_initialized)
  moreover have "evalConstraint u st ?s = evalConstraint u st (?s\<lparr> initialized := True \<rparr>)"
    by (simp add: evalConstraint_initialized)
  ultimately show ?thesis by blast
qed

theorem evaluate_ignores_invalidity_witness:
  "(\<exists>(k, l) \<in> set (links ex_unbound). getSubChain ex_ik (link_name l) = None)
   \<and> \<not> initialized (snd (init ex_ik ex_unbound))
   \<and> evalConstraint (\<lambda>_. 0) (ex_state [0.1, 0.2, 0.3] Map.empty) (snd (init ex_ik ex_unbound))
       = evalConstraint (\<lambda>_. 0) (ex_state [0.1, 0.2, 0.3] Map.empty)
           ((snd (init ex_ik ex_unbound))\<lparr> initialized := True \<rparr>)"
proof -
  have h: "\<exists>(k, l) \<in> set (links ex_unbound). getSubChain ex_ik (link_name l) = None"
    by (simp add: ex_unbound_def addAvoidanceLink_def AvoidObstacles_new_def LinkAvoidance_new_def
          ex_ik_def)
  from evaluate_ignores_invalidity [OF h, of "\<lambda>_. 0" "ex_state [0.1, 0.2, 0.3] Map.empty"] h
  show ?thesis by blast
qed

section \<open>Loading the configuration\<close>

lemma map_of_insort_key_apply:
  "map_of xs k = None \<Longrightarrow>
   map_of (insort_key fst (k, v) xs) x = (if x = k then Some v else map_of xs x)"
  by (induction xs) (auto split: if_splits)

lemma map_of_insort_key:
  "map_of xs k = None \<Longrightarrow> map_of (insort_key fst (k, v) xs) = (map_of xs)(k \<mapsto> v)"
  by (rule ext) (simp add: map_of_insort_key_apply)

lemma addAvoidanceLink_map:
  "map_of (links (addAvoidanceLink junk n s)) =
     (map_of (links s))(n \<mapsto> (case map_of (links s) n of
                                  None \<Rightarrow> LinkAvoidance_new junk n | Some l \<Rightarrow> l))"
  by (auto simp: addAvoidanceLink_def map_of_insort_key split: option.splits)

lemma setLinkData_map:
  assumes "map_of (links s) n = Some l"
  shows "\<exists>s'. (if c then setLinkData f n s else Inr s) = Inr s'
              \<and> map_of (links s') = (map_of (links s))(n \<mapsto> (if c then f l else l))"
  using assms by (auto simp: setLinkData_def map_of_map_entry)

lemma setAmplitude_map:
  assumes "map_of (links s) n = Some l"
  shows "\<exists>s'. (if c then setAmplitude n v s else Inr s) = Inr s'
              \<and> map_of (links s') = (map_of (links s))(n \<mapsto> (if c then l\<lparr> amplitude := v \<rparr> else l))"
  unfolding setAmplitude_def by (rule setLinkData_map [OF assms])

lemma setMinDistance_map:
  assumes "map_of (links s) n = Some l"
  shows "\<exists>s'. (if c then setMinDistance n v s else Inr s) = Inr s'
              \<and> map_of (links s') = (map_of (links s))(n \<mapsto> (if c then l\<lparr> min_distance := v \<rparr> else l))"
  unfolding setMinDistance_def by (rule setLinkData_map [OF assms])

lemma setAvoidanceDistance_map:
  assumes "map_of (links s) n = Some l"
  shows "\<exists>s'. (if c then setAvoidanceDistance n v s else Inr s) = Inr s'
              \<and> map_of (links s') = (map_of (links s))(n \<mapsto> (if c then l\<lparr> avoidance_distance := v \<rparr> else l))"
  unfolding setAvoidanceDistance_def by (rule setLinkData_map [OF assms])

lemma setWeight_map:
  assumes "map_of (links s) n = Some l"
  shows "\<exists>s'. (if c then setWeight n v s else Inr s) = Inr s'
              \<and> map_of (links s') = (map_of (links s))(n \<mapsto> (if c then l\<lparr> weight := v \<rparr> else l))"
  unfolding setWeight_def by (rule setLinkData_map [OF assms])
lemma load_link_map:
  "\<exists>s'. load_link junk names amp min_dist avoid_dist wgt i s = Inr s'
        \<and> map_of (links s') =
            (map_of (links s))(names ! i \<mapsto> loaded_link junk names amp min_dist avoid_dist wgt i s)"
proof -
  let ?n = "names ! i"
  let ?l0 = "case map_of (links s) ?n of None \<Rightarrow> LinkAvoidance_new (junk i) ?n | Some l \<Rightarrow> l"
  let ?s0 = "addAvoidanceLink (junk i) ?n s"
  have m0: "map_of (links ?s0) = (map_of (links s))(?n \<mapsto> ?l0)"
    by (rule addAvoidanceLink_map)
  then have "map_of (links ?s0) ?n = Some ?l0" by simp
  from setAmplitude_map [OF this, of "amp \<noteq> []" "amp ! i"]
  obtain s1 where s1: "(if amp \<noteq> [] then setAmplitude ?n (amp ! i) ?s0 else Inr ?s0) = Inr s1"
    and m1: "map_of (links s1) = (map_of (links ?s0))(?n \<mapsto>
               (if amp \<noteq> [] then ?l0\<lparr> amplitude := amp ! i \<rparr> else ?l0))"
    by blast
  let ?l1 = "if amp \<noteq> [] then ?l0\<lparr> amplitude := amp ! i \<rparr> else ?l0"
  from m1 have "map_of (links s1) ?n = Some ?l1" by simp
  from setMinDistance_map [OF this, of "min_dist \<noteq> []" "min_dist ! i"]
  obtain s2 where s2: "(if min_dist \<noteq> [] then setMinDistance ?n (min_dist ! i) s1 else Inr s1) = Inr s2"
    and m2: "map_of (links s2) = (map_of (links s1))(?n \<mapsto>
               (if min_dist \<noteq> [] then ?l1\<lparr> min_distance := min_dist ! i \<rparr> else ?l1))"
    by blast
  let ?l2 = "if min_dist \<noteq> [] then ?l1\<lparr> min_distance := min_dist ! i \<rparr> else ?l1"
  from m2 have "map_of (links s2) ?n = Some ?l2" by simp
  from setAvoidanceDistance_map [OF this, of "avoid_dist \<noteq> []" "avoid_dist ! i"]
  obtain s3 where s3: "(if avoid_dist \<noteq> [] then setAvoidanceDistance ?n (avoid_dist ! i) s2 else Inr s2) = Inr s3"
    and m3: "map_of (links s3) = (map_of (links s2))(?n \<mapsto>
               (if avoid_dist \<noteq> [] then ?l2\<lparr> avoidance_distance := avoid_dist ! i \<rparr> else ?l2))"
    by blast
  let ?l3 = "if avoid_dist \<noteq> [] then ?l2\<lparr> avoidance_distance := avoid_dist ! i \<rparr> else ?l2"
  from m3 have "map_of (links s3) ?n = Some ?l3" by simp
  from setWeight_map [OF this, of "wgt \<noteq> []" "wgt ! i"]
  obtain s4 where s4: "(if wgt \<noteq> [] then setWeight ?n (wgt ! i) s3 else Inr s3) = Inr s4"
    and m4: "map_of (links s4) = (map_of (links s3))(?n \<mapsto>
               (if wgt \<noteq> [] then ?l3\<lparr> weight := wgt ! i \<rparr> else ?l3))"
    by blast
  let ?l4 = "if wgt \<noteq> [] then ?l3\<lparr> weight := wgt ! i \<rparr> else ?l3"
  have r: "load_link junk names amp min_dist avoid_dist wgt i s = Inr s4"
    unfolding load_link_def and_then_def using s1 s2 s3 s4 by simp
  have "map_of (links s4) = (map_of (links s))(?n \<mapsto> ?l4)"
    unfolding m4 m3 m2 m1 m0 by simp
  moreover have "?l4 = loaded_link junk names amp min_dist avoid_dist wgt i s"
    by (simp add: loaded_link_def Let_def)
  ultimately show ?thesis using r by simp
qed

lemma load_links_append:
  "load_links junk names amp min_dist avoid_dist wgt (xs @ ys) s =
     and_then (load_links junk names amp min_dist avoid_dist wgt xs s)
       (load_links junk names amp min_dist avoid_dist wgt ys)"
proof (induction xs arbitrary: s)
  case Nil
  then show ?case by (simp add: and_then_def)
next
  case (Cons i xs)
  then show ?case by (cases "load_link junk names amp min_dist avoid_dist wgt i s") (simp_all add: and_then_def)
qed
lemma load_links_param:
  assumes law: "\<And>i s. g (loaded_link junk names amp min_dist avoid_dist wgt i s)
                       = (if arr \<noteq> [] then arr ! i else param_of g d s (names ! i))"
      and "k \<le> length names"
  shows "\<exists>s'. load_links junk names amp min_dist avoid_dist wgt [0..<k] s = Inr s'
          \<and> (\<forall>j<k. map_of (links s') (names ! j) \<noteq> None)
          \<and> (arr = [] \<longrightarrow> (\<forall>n. param_of g d s' n = param_of g d s n))
          \<and> (arr \<noteq> [] \<longrightarrow>
               (\<forall>j<k. (\<forall>j'. j < j' \<and> j' < k \<longrightarrow> names ! j' \<noteq> names ! j) \<longrightarrow>
                       param_of g d s' (names ! j) = arr ! j))"
  using assms(2)
proof (induction k)
  case 0
  then show ?case by simp
next
  case (Suc k)
  then have "k \<le> length names" by simp
  from Suc.IH [OF this] obtain s1 where
    r1: "load_links junk names amp min_dist avoid_dist wgt [0..<k] s = Inr s1"
    and b1: "\<forall>j<k. map_of (links s1) (names ! j) \<noteq> None"
    and e1: "arr = [] \<longrightarrow> (\<forall>n. param_of g d s1 n = param_of g d s n)"
    and v1: "arr \<noteq> [] \<longrightarrow>
               (\<forall>j<k. (\<forall>j'. j < j' \<and> j' < k \<longrightarrow> names ! j' \<noteq> names ! j) \<longrightarrow>
                       param_of g d s1 (names ! j) = arr ! j)"
    by blast
  let ?l = "loaded_link junk names amp min_dist avoid_dist wgt k s1"
  from load_link_map [of junk names amp min_dist avoid_dist wgt k s1] obtain s2 where
    r2: "load_link junk names amp min_dist avoid_dist wgt k s1 = Inr s2"
    and m2: "map_of (links s2) = (map_of (links s1))(names ! k \<mapsto> ?l)"
    by blast
  have p_same: "param_of g d s2 n = param_of g d s1 n" if "n \<noteq> names ! k" for n
    using that by (simp add: param_of_def m2)
  have p_new: "param_of g d s2 (names ! k) = (if arr \<noteq> [] then arr ! k else param_of g d s1 (names ! k))"
    using law [of k s1] by (simp add: param_of_def m2)
  have "load_links junk names amp min_dist avoid_dist wgt [0..<Suc k] s = Inr s2"
    using r1 r2 by (simp add: load_links_append and_then_def)
  moreover have "\<forall>j<Suc k. map_of (links s2) (names ! j) \<noteq> None"
  proof (intro allI impI)
    fix j assume "j < Suc k"
    show "map_of (links s2) (names ! j) \<noteq> None"
    proof (cases "names ! j = names ! k")
      case True
      then show ?thesis by (simp add: m2)
    next
      case False
      then have "j \<noteq> k" by auto
      with \<open>j < Suc k\<close> have "j < k" by simp
      with b1 False show ?thesis by (simp add: m2)
    qed
  qed
  moreover have "arr = [] \<longrightarrow> (\<forall>n. param_of g d s2 n = param_of g d s n)"
  proof (intro impI allI)
    fix n assume a: "arr = []"
    show "param_of g d s2 n = param_of g d s n"
    proof (cases "n = names ! k")
      case True
      then show ?thesis using p_new e1 a by simp
    next
      case False
      then show ?thesis using p_same e1 a by simp
    qed
  qed
  moreover have "arr \<noteq> [] \<longrightarrow>
               (\<forall>j<Suc k. (\<forall>j'. j < j' \<and> j' < Suc k \<longrightarrow> names ! j' \<noteq> names ! j) \<longrightarrow>
                       param_of g d s2 (names ! j) = arr ! j)"
  proof (intro impI allI)
    fix j
    assume a: "arr \<noteq> []" and j: "j < Suc k"
      and last: "\<forall>j'. j < j' \<and> j' < Suc k \<longrightarrow> names ! j' \<noteq> names ! j"
    show "param_of g d s2 (names ! j) = arr ! j"
    proof (cases "j = k")
      case True
      then show ?thesis using p_new a by simp
    next
      case False
      with j have jk: "j < k" by simp
      with last have ne: "names ! j \<noteq> names ! k" by (metis lessI)
      from last have "\<forall>j'. j < j' \<and> j' < k \<longrightarrow> names ! j' \<noteq> names ! j" by simp
      with v1 a jk have "param_of g d s1 (names ! j) = arr ! j" by blast
      with p_same [OF ne] show ?thesis by simp
    qed
  qed
  ultimately show ?case by blast
qed

lemma member_law:
  "member_value m (loaded_link junk names
       (snd (sized_member names xml Amplitude)) (snd (sized_member names xml MinimumDistance))
       (snd (sized_member names xml AvoidanceDistance)) (snd (sized_member names xml Weight)) i s)
   = (if snd (sized_member names xml m) \<noteq> [] then snd (sized_member names xml m) ! i
      else param_of (member_value m) (member_default m) s (names ! i))"
  by (cases m)
     (simp_all add: loaded_link_def Let_def param_of_def LinkAvoidance_new_def split: option.splits)

lemma loadParameters_Some:
  assumes "xml_link_names xml = Some names"
  shows "loadParameters junk xml s =
     and_then (load_links junk names
       (snd (sized_member names xml Amplitude)) (snd (sized_member names xml MinimumDistance))
       (snd (sized_member names xml AvoidanceDistance)) (snd (sized_member names xml Weight))
       [0..<length names] s)
      (\<lambda>s. Inr (fst (sized_member names xml Amplitude) @ fst (sized_member names xml MinimumDistance)
                 @ fst (sized_member names xml AvoidanceDistance) @ fst (sized_member names xml Weight), s))"
  using assms by (simp add: loadParameters_def sized_member_def split: prod.splits)

lemma sized_member_mismatch:
  assumes "xml_member m xml = Some arr" and "length arr \<noteq> length names"
  shows "sized_member names xml m =
           ([WARN (''Abstacle Avoidance: '' @ member_name m
                   @ '' memebr must be same size array as link_names member, default parameters will be used.'')],
            [])"
  using assms by (auto simp: sized_member_def getParamSized_def)

lemma sized_member_match:
  assumes "xml_member m xml = Some arr" and "length arr = length names"
  shows "sized_member names xml m = ([], arr)"
  using assms by (simp add: sized_member_def getParamSized_def)

lemma link_1_le_link_2: "''link_1'' \<le> ''link_2''" "\<not> ''link_2'' \<le> ''link_1''"
  by (simp_all add: less_eq_char_def less_char_def)

text \<open>
  Claim C9, as stated, fails. \<^verbatim>\<open>link_1\<close> is registered and given the amplitude 0.75; a
  configuration is then loaded that lists \<^verbatim>\<open>link_1\<close> and \<^verbatim>\<open>link_2\<close> with an amplitude array
  of one value. The array is discarded with the warning, and \<^verbatim>\<open>link_1\<close> is left with 0.75,
  not with the default 0.3; the other arrays are applied.
\<close>

theorem loadParameters_size_mismatch_counterexample:
  "setAmplitude ''link_1'' 0.75 (addAvoidanceLink (0, 0) ''link_1'' AvoidObstacles_new)
     = Inr ex_configured
   \<and> loadParameters (\<lambda>_. (0, 0)) ex_xml ex_configured =
       Inr ([WARN ''Abstacle Avoidance: amplitude memebr must be same size array as link_names member, default parameters will be used.'',
             WARN ''Abstacle Avoidance: Unable to retrieving avoidance_distance member, default parameter will be used.''],
            \<lparr> links =
                [(''link_1'', \<lparr> weight = 2, min_distance = 0.2, avoidance_distance = 0.3,
                     amplitude = 0.75, num_robot_joints = 0, num_inboard_joints = 0,
                     jac_solver = None, link_name = ''link_1'' \<rparr>),
                 (''link_2'', \<lparr> weight = 3, min_distance = 0.4, avoidance_distance = 0.3,
                     amplitude = 0.3, num_robot_joints = 0, num_inboard_joints = 0,
                     jac_solver = None, link_name = ''link_2'' \<rparr>)],
              link_names = [''link_1'', ''link_2''], link_models = {}, initialized = False \<rparr>)
   \<and> DEFAULT_AMPLITUDE = 0.3"
  by (simp add: loadParameters_def ex_xml_def ex_configured_def getParamSized_def
        load_link_def and_then_def addAvoidanceLink_def setAmplitude_def setMinDistance_def
        setAvoidanceDistance_def setWeight_def setLinkData_def LinkAvoidance_new_def
        AvoidObstacles_new_def map_entry.simps upt_rec [of 0] upt_rec [of 1] numeral_2_eq_2
        DEFAULT_AMPLITUDE_def DEFAULT_AVOIDANCE_DISTANCE_def DEFAULT_MIN_DISTANCE_def
        DEFAULT_WEIGHT_def link_1_le_link_2)

text \<open>
  Claim C9, amended. When the configuration lists the links \<open>names\<close> and has the array
  member \<open>m\<close> (one of amplitude, minimum\_distance, avoidance\_distance, weight) with a length
  other than that of \<open>names\<close>, \<open>loadParameters\<close> returns with the size warning for \<open>m\<close> among
  its messages and applies no value of that array: for \<open>m\<close>, every listed link that the load
  registers has the default value, and every listed link that was registered before keeps
  the value it had. Every other array member of the right length is applied as it is: the
  link at index \<open>j\<close> has the array's value at \<open>j\<close> (for a name listed more than once, the
  value at its last index, set last).
\<close>

theorem loadParameters_size_mismatch:
  assumes "xml_link_names xml = Some names"
      and "xml_member m xml = Some arr"
      and "length arr \<noteq> length names"
  shows "\<exists>msgs s'. loadParameters junk xml s = Inr (msgs, s')
     \<and> WARN (''Abstacle Avoidance: '' @ member_name m
              @ '' memebr must be same size array as link_names member, default parameters will be used.'')
         \<in> set msgs
     \<and> (\<forall>n \<in> set names.
           \<exists>l. map_of (links s') n = Some l
              \<and> member_value m l = (case map_of (links s) n of
                                      None \<Rightarrow> member_default m
                                    | Some l0 \<Rightarrow> member_value m l0))
     \<and> (\<forall>m' arr'. m' \<noteq> m \<and> xml_member m' xml = Some arr' \<and> length arr' = length names \<longrightarrow>
           (\<forall>j < length names. (\<forall>j'. j < j' \<and> j' < length names \<longrightarrow> names ! j' \<noteq> names ! j) \<longrightarrow>
              (\<exists>l. map_of (links s') (names ! j) = Some l \<and> member_value m' l = arr' ! j)))"
proof -
  let ?sz = "sized_member names xml"
  let ?loop = "load_links junk names (snd (?sz Amplitude)) (snd (?sz MinimumDistance))
                 (snd (?sz AvoidanceDistance)) (snd (?sz Weight)) [0..<length names] s"
  let ?msgs = "fst (?sz Amplitude) @ fst (?sz MinimumDistance)
                 @ fst (?sz AvoidanceDistance) @ fst (?sz Weight)"
  have sz: "?sz m = ([WARN (''Abstacle Avoidance: '' @ member_name m
                   @ '' memebr must be same size array as link_names member, default parameters will be used.'')],
                    [])"
    using assms(2,3) by (rule sized_member_mismatch)
  from load_links_param [of "member_value m" junk names _ _ _ _ "snd (?sz m)" "member_default m"
         "length names" s, OF member_law]
  obtain s' where
    r: "?loop = Inr s'"
    and b: "\<forall>j<length names. map_of (links s') (names ! j) \<noteq> None"
    and e: "\<forall>n. param_of (member_value m) (member_default m) s' n
                 = param_of (member_value m) (member_default m) s n"
    using sz by auto
  have 1: "loadParameters junk xml s = Inr (?msgs, s')"
    using r by (simp add: loadParameters_Some [OF assms(1)] and_then_def)
  have 2: "WARN (''Abstacle Avoidance: '' @ member_name m
              @ '' memebr must be same size array as link_names member, default parameters will be used.'')
           \<in> set ?msgs"
    using sz by (cases m) simp_all
  have 3: "\<exists>l. map_of (links s') n = Some l
             \<and> member_value m l = (case map_of (links s) n of
                                     None \<Rightarrow> member_default m
                                   | Some l0 \<Rightarrow> member_value m l0)"
    if "n \<in> set names" for n
  proof -
    from that obtain j where "j < length names" "names ! j = n"
      by (auto simp: in_set_conv_nth)
    with b obtain l where l: "map_of (links s') n = Some l" by auto
    from e have "param_of (member_value m) (member_default m) s' n
                   = param_of (member_value m) (member_default m) s n" by simp
    with l have "member_value m l = (case map_of (links s) n of
                                       None \<Rightarrow> member_default m
                                     | Some l0 \<Rightarrow> member_value m l0)"
      by (simp add: param_of_def)
    with l show ?thesis by simp
  qed
  have 4: "\<exists>l. map_of (links s') (names ! j) = Some l \<and> member_value m' l = arr' ! j"
    if "xml_member m' xml = Some arr'" "length arr' = length names" "j < length names"
       "\<forall>j'. j < j' \<and> j' < length names \<longrightarrow> names ! j' \<noteq> names ! j" for m' arr' j
  proof -
    have sz': "?sz m' = ([], arr')" using that(1,2) by (rule sized_member_match)
    from that(2,3) have ne: "arr' \<noteq> []" by auto
    from load_links_param [of "member_value m'" junk names _ _ _ _ "snd (?sz m')" "member_default m'"
           "length names" s, OF member_law]
    obtain s'' where
      r': "?loop = Inr s''"
      and v: "\<forall>j<length names. (\<forall>j'. j < j' \<and> j' < length names \<longrightarrow> names ! j' \<noteq> names ! j) \<longrightarrow>
                 param_of (member_value m') (member_default m') s'' (names ! j) = arr' ! j"
      using sz' ne by auto
    from r r' have "s'' = s'" by simp
    with v that(3,4) have p: "param_of (member_value m') (member_default m') s' (names ! j) = arr' ! j"
      by blast
    from b that(3) obtain l where l: "map_of (links s') (names ! j) = Some l" by auto
    with p show ?thesis by (simp add: param_of_def)
  qed
  from 1 2 3 4 show ?thesis by blast
qed

theorem loadParameters_size_mismatch_witness:
  "xml_link_names ex_xml = Some [''link_1'', ''link_2'']
   \<and> xml_member Amplitude ex_xml = Some [0.5]
   \<and> length [0.5 :: real] \<noteq> length [''link_1'', ''link_2'']
   \<and> (\<exists>msgs s'. loadParameters (\<lambda>_. (0, 0)) ex_xml ex_configured = Inr (msgs, s')
         \<and> WARN ''Abstacle Avoidance: amplitude memebr must be same size array as link_names member, default parameters will be used.''
             \<in> set msgs
         \<and> (\<exists>l. map_of (links s') ''link_1'' = Some l \<and> amplitude l = 0.75)
         \<and> (\<exists>l. map_of (links s') ''link_2'' = Some l \<and> amplitude l = DEFAULT_AMPLITUDE)
         \<and> (\<exists>l. map_of (links s') ''link_1'' = Some l \<and> min_distance l = 0.2)
         \<and> (\<exists>l. map_of (links s') ''link_2'' = Some l \<and> weight l = 3))"
proof -
  let ?names = "[''link_1'', ''link_2'']"
  have h1: "xml_link_names ex_xml = Some ?names" by (simp add: ex_xml_def)
  have h2: "xml_member Amplitude ex_xml = Some [0.5]" by (simp add: ex_xml_def)
  have h3: "length [0.5 :: real] \<noteq> length ?names" by simp
  from loadParameters_size_mismatch [OF h1 h2 h3, of "\<lambda>_. (0, 0)" ex_configured]
  obtain msgs s' where
    r: "loadParameters (\<lambda>_. (0, 0)) ex_xml ex_configured = Inr (msgs, s')"
    and w: "WARN (''Abstacle Avoidance: '' @ member_name Amplitude
              @ '' memebr must be same size array as link_names member, default parameters will be used.'')
            \<in> set msgs"
    and d: "\<forall>n \<in> set ?names.
              \<exists>l. map_of (links s') n = Some l
                 \<and> member_value Amplitude l = (case map_of (links ex_configured) n of
                                                 None \<Rightarrow> member_default Amplitude
                                               | Some l0 \<Rightarrow> member_value Amplitude l0)"
    and o: "\<forall>m' arr'. m' \<noteq> Amplitude \<and> xml_member m' ex_xml = Some arr' \<and> length arr' = length ?names \<longrightarrow>
              (\<forall>j < length ?names. (\<forall>j'. j < j' \<and> j' < length ?names \<longrightarrow> ?names ! j' \<noteq> ?names ! j) \<longrightarrow>
                 (\<exists>l. map_of (links s') (?names ! j) = Some l \<and> member_value m' l = arr' ! j))"
    by blast
  from d have a1: "\<exists>l. map_of (links s') ''link_1'' = Some l \<and> amplitude l = 0.75"
    and a2: "\<exists>l. map_of (links s') ''link_2'' = Some l \<and> amplitude l = DEFAULT_AMPLITUDE"
    by (simp_all add: ex_configured_def)
  have last0: "\<forall>j'. 0 < j' \<and> j' < length ?names \<longrightarrow> ?names ! j' \<noteq> ?names ! 0"
    by (auto simp: less_Suc_eq)
  have last1: "\<forall>j'. 1 < j' \<and> j' < length ?names \<longrightarrow> ?names ! j' \<noteq> ?names ! 1"
    by auto
  have "MinimumDistance \<noteq> Amplitude \<and> xml_member MinimumDistance ex_xml = Some [0.2, 0.4]
        \<and> length [0.2, 0.4 :: real] = length ?names"
    by (simp add: ex_xml_def)
  with o have "\<forall>j < length ?names. (\<forall>j'. j < j' \<and> j' < length ?names \<longrightarrow> ?names ! j' \<noteq> ?names ! j) \<longrightarrow>
                 (\<exists>l. map_of (links s') (?names ! j) = Some l \<and> member_value MinimumDistance l = [0.2, 0.4] ! j)"
    by blast
  then have "0 < length ?names \<longrightarrow> (\<forall>j'. 0 < j' \<and> j' < length ?names \<longrightarrow> ?names ! j' \<noteq> ?names ! 0) \<longrightarrow>
                 (\<exists>l. map_of (links s') (?names ! 0) = Some l \<and> member_value MinimumDistance l = [0.2, 0.4] ! 0)"
    by blast
  with last0 have m1: "\<exists>l. map_of (links s') ''link_1'' = Some l \<and> min_distance l = 0.2"
    by simp
  have "Weight \<noteq> Amplitude \<and> xml_member Weight ex_xml = Some [2, 3]
        \<and> length [2, 3 :: real] = length ?names"
    by (simp add: ex_xml_def)
  with o have "\<forall>j < length ?names. (\<forall>j'. j < j' \<and> j' < length ?names \<longrightarrow> ?names ! j' \<noteq> ?names ! j) \<longrightarrow>
                 (\<exists>l. map_of (links s') (?names ! j) = Some l \<and> member_value Weight l = [2, 3] ! j)"
    by blast
  then have "1 < length ?names \<longrightarrow> (\<forall>j'. 1 < j' \<and> j' < length ?names \<longrightarrow> ?names ! j' \<noteq> ?names ! 1) \<longrightarrow>
                 (\<exists>l. map_of (links s') (?names ! 1) = Some l \<and> member_value Weight l = [2, 3] ! 1)"
    by blast
  with last1 have w2: "\<exists>l. map_of (links s') ''link_2'' = Some l \<and> weight l = 3"
    by simp
  from r w a1 a2 m1 w2 h1 h2 h3 show ?thesis by auto
qed

end
